theory Spec2Isabelle
  imports Complex_Main "HOL-Library.Multiset"
begin

section \<open>The price aggregator of the price oracle\<close>

text \<open>
  A shallow embedding of \<^verbatim>\<open>src/price_aggregator.py\<close>: the class \<^verbatim>\<open>PriceAggregator\<close>
  with its methods \<^verbatim>\<open>aggregate_prices\<close>, \<^verbatim>\<open>_calculate_weighted_price\<close>,
  \<^verbatim>\<open>_calculate_confidence\<close>, \<^verbatim>\<open>_generate_warnings\<close> and \<^verbatim>\<open>_create_error_result\<close>.

  Numbers. The program computes with Python floats. The embedding computes with exact
  rationals (\<^typ>\<open>rat\<close>): every arithmetic operation of the source is the same operation
  on \<^typ>\<open>rat\<close>, without the rounding error, the infinities and the NaN of IEEE doubles.
  What is proved below is therefore about the formulas and the control flow of the
  program, not about the last bit of a double.

  Exceptions. Every operation of the source that can raise (indexing, a dictionary
  lookup, \<^verbatim>\<open>min\<close>, \<^verbatim>\<open>max\<close>, \<^verbatim>\<open>statistics.median\<close>, a division) returns a value of
  \<open>py_error + 'a\<close>, with \<open>Inl\<close> for the exception, and the callers propagate it.
\<close>

subsection \<open>Exceptions\<close>

datatype py_error = KeyError | IndexError | ValueError | StatisticsError | ZeroDivisionError

definition py_bind :: "py_error + 'a \<Rightarrow> ('a \<Rightarrow> py_error + 'b) \<Rightarrow> py_error + 'b" where
  "py_bind m f = (case m of Inl e \<Rightarrow> Inl e | Inr v \<Rightarrow> f v)"

text \<open>A list comprehension whose element expression can raise.\<close>

fun py_collect :: "('a \<Rightarrow> py_error + 'b) \<Rightarrow> 'a list \<Rightarrow> py_error + 'b list" where
  "py_collect f [] = Inr []"
| "py_collect f (x # xs) =
     py_bind (f x) (\<lambda>y. py_bind (py_collect f xs) (\<lambda>ys. Inr (y # ys)))"

subsection \<open>The Python built-ins the aggregator calls\<close>

text \<open>\<^verbatim>\<open>xs[i]\<close> for a non-negative index: IndexError out of range.\<close>

definition py_index :: "'a list \<Rightarrow> nat \<Rightarrow> py_error + 'a" where
  "py_index xs i = (if i < length xs then Inr (xs ! i) else Inl IndexError)"

text \<open>\<^verbatim>\<open>a / b\<close>: ZeroDivisionError when the divisor is zero.\<close>

definition py_div :: "rat \<Rightarrow> rat \<Rightarrow> py_error + rat" where
  "py_div a b = (if b = 0 then Inl ZeroDivisionError else Inr (a / b))"

text \<open>\<^verbatim>\<open>min(xs)\<close> and \<^verbatim>\<open>max(xs)\<close> of a list: ValueError on the empty list, else a scan
  that keeps the smallest (largest) element seen.\<close>

definition py_min :: "rat list \<Rightarrow> py_error + rat" where
  "py_min xs = (case xs of [] \<Rightarrow> Inl ValueError | x # ys \<Rightarrow> Inr (fold min ys x))"

definition py_max :: "rat list \<Rightarrow> py_error + rat" where
  "py_max xs = (case xs of [] \<Rightarrow> Inl ValueError | x # ys \<Rightarrow> Inr (fold max ys x))"

text \<open>\<^verbatim>\<open>statistics.median\<close>: sorts the data; StatisticsError on no data; the middle
  element for an odd count, the mean of the two middle elements for an even count.\<close>

definition py_median :: "rat list \<Rightarrow> py_error + rat" where
  "py_median xs =
     (let data = sort xs; n = length data in
      if n = 0 then Inl StatisticsError
      else if n mod 2 = 1 then Inr (data ! (n div 2))
      else (let i = n div 2 in Inr ((data ! (i - 1) + data ! i) / 2)))"

text \<open>\<^verbatim>\<open>round(x, ndigits)\<close>: the nearest multiple of \<open>10\<^sup>-\<^sup>n\<close>, a tie going to the even
  multiple.\<close>

definition round_half_even :: "rat \<Rightarrow> int" where
  "round_half_even y =
     (let f = \<lfloor>y\<rfloor>; d = y - of_int f in
      if d < 1 / 2 then f
      else if 1 / 2 < d then f + 1
      else if even f then f else f + 1)"

definition py_round :: "rat \<Rightarrow> nat \<Rightarrow> rat" where
  "py_round x ndigits = of_int (round_half_even (x * 10 ^ ndigits)) / 10 ^ ndigits"

text \<open>\<^verbatim>\<open>str(n)\<close> of a non-negative integer, and the format \<^verbatim>\<open>{x:.1f}\<close>: one digit after
  the point, rounded as above, with the sign of \<open>x\<close>.\<close>

definition digit_char :: "nat \<Rightarrow> char" where
  "digit_char d = char_of (48 + d)"

fun str_nat :: "nat \<Rightarrow> string" where
  "str_nat n = (if n < 10 then [digit_char n] else str_nat (n div 10) @ [digit_char (n mod 10)])"

declare str_nat.simps [simp del]

definition format_1f :: "rat \<Rightarrow> string" where
  "format_1f x =
     (let t = nat (round_half_even (\<bar>x\<bar> * 10)) in
      (if x < 0 then ''-'' else '''') @ str_nat (t div 10) @ ''.'' @ str_nat (t mod 10))"

subsection \<open>Data\<close>

text \<open>
  One element of \<^verbatim>\<open>source_prices\<close>: the dictionary a fetcher returns. \<open>q_price_usd\<close> is
  \<^verbatim>\<open>s.get("price_usd")\<close>, \<open>None\<close> when the key is missing or holds \<^verbatim>\<open>None\<close>;
  \<open>q_confidence\<close> is \<open>None\<close> when the key \<^verbatim>\<open>"confidence"\<close> is missing, as in every
  error dictionary of the fetchers. A price and a confidence that are present are numbers.
  \<open>q_extra\<close> holds the other keys (method, token id, market data), which the aggregator
  never reads.
\<close>

record quote =
  q_source :: string
  q_price_usd :: "rat option"
  q_confidence :: "rat option"
  q_error :: "string option"
  q_extra :: "(string \<times> string) list"

record price_range_dict =
  range_min :: rat
  range_max :: rat
  spread_percent :: rat

record PriceResult =
  token_address :: string
  chain_id :: int
  price_usd :: rat
  confidence :: rat
  sources_count :: nat
  price_range :: price_range_dict
  sources :: "quote list"
  warnings :: "string list"
  timestamp :: string

subsection \<open>The aggregator\<close>

definition MAX_SPREAD_PCT :: rat where
  "MAX_SPREAD_PCT = 5"

text \<open>The string literals of the source, as UTF-8 bytes.\<close>

definition warning_sign :: string where
  "warning_sign = [CHR 0xE2, CHR 0x9A, CHR 0xA0, CHR 0xEF, CHR 0xB8, CHR 0x8F]"

definition police_light :: string where
  "police_light = [CHR 0xF0, CHR 0x9F, CHR 0x9A, CHR 0xA8]"

definition info_sign :: string where
  "info_sign = [CHR 0xE2, CHR 0x84, CHR 0xB9, CHR 0xEF, CHR 0xB8, CHR 0x8F]"

definition no_entry_sign :: string where
  "no_entry_sign = [CHR 0xF0, CHR 0x9F, CHR 0x9A, CHR 0xAB]"

definition high_spread_warning :: "rat \<Rightarrow> string" where
  "high_spread_warning spread_pct =
     warning_sign @ '' High price spread: '' @ format_1f spread_pct @ ''% between sources''"

definition very_high_spread_warning :: string where
  "very_high_spread_warning =
     police_light @ '' VERY HIGH SPREAD - Price may be unreliable or arbitrage opportunity''"

definition single_source_warning :: string where
  "single_source_warning = info_sign @ '' Single price source - confidence reduced''"

definition failed_sources_warning :: "nat \<Rightarrow> string" where
  "failed_sources_warning failed =
     info_sign @ '' '' @ str_nat failed @ '' source(s) failed to provide price''"

definition no_valid_data_warning :: string where
  "no_valid_data_warning = no_entry_sign @ '' No valid price data available''"

text \<open>\<^verbatim>\<open>s.get("price_usd") is not None and s.get("price_usd") > 0\<close>\<close>

definition is_valid :: "quote \<Rightarrow> bool" where
  "is_valid s = (case q_price_usd s of None \<Rightarrow> False | Some p \<Rightarrow> 0 < p)"

text \<open>\<^verbatim>\<open>s["price_usd"]\<close>, read as a number: a dictionary without a price has none to give.\<close>

definition get_price :: "quote \<Rightarrow> py_error + rat" where
  "get_price s = (case q_price_usd s of None \<Rightarrow> Inl KeyError | Some p \<Rightarrow> Inr p)"

text \<open>\<^verbatim>\<open>s.get("confidence", 0.5)\<close>\<close>

definition get_confidence :: "quote \<Rightarrow> rat" where
  "get_confidence s = (case q_confidence s of None \<Rightarrow> 1 / 2 | Some c \<Rightarrow> c)"

definition calculate_weighted_price :: "rat list \<Rightarrow> rat list \<Rightarrow> py_error + rat" where
  "calculate_weighted_price prices confidences =
     (if prices = [] then Inr 0
      else
        (let weighted_sum = sum_list (map (\<lambda>(p, c). p * c) (zip prices confidences));
             total_weight = sum_list confidences in
         if total_weight = 0 then py_median prices
         else py_div weighted_sum total_weight))"

definition calculate_confidence :: "rat list \<Rightarrow> rat list \<Rightarrow> rat \<Rightarrow> py_error + rat" where
  "calculate_confidence prices confidences spread_pct =
     py_bind (py_median confidences) (\<lambda>base_confidence.
       (let source_bonus = min (1 / 10 * of_nat (length prices)) (1 / 5);
            spread_penalty =
              (if MAX_SPREAD_PCT < spread_pct
               then min ((spread_pct - MAX_SPREAD_PCT) / 100) (3 / 10)
               else 0);
            confidence = base_confidence + source_bonus - spread_penalty in
        Inr (max (1 / 10) (min 1 confidence))))"

definition generate_warnings :: "rat \<Rightarrow> nat \<Rightarrow> nat \<Rightarrow> string list" where
  "generate_warnings spread_pct valid_sources total_sources =
     (if MAX_SPREAD_PCT < spread_pct then [high_spread_warning spread_pct] else []) @
     (if 15 < spread_pct then [very_high_spread_warning] else []) @
     (if valid_sources = 1 then [single_source_warning] else []) @
     (if valid_sources < total_sources
      then [failed_sources_warning (total_sources - valid_sources)] else []) @
     (if valid_sources = 0 then [no_valid_data_warning] else [])"

definition create_error_result :: "string \<Rightarrow> int \<Rightarrow> string \<Rightarrow> quote list \<Rightarrow> PriceResult" where
  "create_error_result token_address' chain_id' error_msg source_prices =
     \<lparr>token_address = token_address',
      chain_id = chain_id',
      price_usd = 0,
      confidence = 0,
      sources_count = 0,
      price_range = \<lparr>range_min = 0, range_max = 0, spread_percent = 0\<rparr>,
      sources = source_prices,
      warnings = [no_entry_sign @ '' '' @ error_msg],
      timestamp = ''''\<rparr>"

text \<open>
  \<^verbatim>\<open>aggregate_prices\<close>. The branch on \<^verbatim>\<open>len(prices) == 1\<close> assigns the local
  variables \<^verbatim>\<open>final_price\<close>, \<^verbatim>\<open>price_min\<close>, \<^verbatim>\<open>price_max\<close>, \<^verbatim>\<open>spread_pct\<close> and
  \<^verbatim>\<open>confidence\<close>; here it returns them as a tuple to the code that follows it.
\<close>

definition aggregate_prices :: "string \<Rightarrow> int \<Rightarrow> quote list \<Rightarrow> py_error + PriceResult" where
  "aggregate_prices token_address' chain_id' source_prices =
     (let valid_sources = filter is_valid source_prices in
      if valid_sources = [] then
        Inr (create_error_result token_address' chain_id'
               ''No valid price sources available'' source_prices)
      else
        py_bind (py_collect get_price valid_sources) (\<lambda>prices.
        (let confidences = map get_confidence valid_sources in
         py_bind
           (if length prices = 1 then
              py_bind (py_index prices 0) (\<lambda>p0.
              py_bind (py_index confidences 0) (\<lambda>c0.
                Inr (p0, p0, p0, 0, c0 * (8 / 10))))
            else
              py_bind (calculate_weighted_price prices confidences) (\<lambda>final_price.
              py_bind (py_min prices) (\<lambda>price_min.
              py_bind (py_max prices) (\<lambda>price_max.
              py_bind (if 0 < final_price
                       then py_bind (py_div (price_max - price_min) final_price)
                              (\<lambda>q. Inr (q * 100))
                       else Inr 0) (\<lambda>spread_pct.
              py_bind (calculate_confidence prices confidences spread_pct) (\<lambda>confidence.
                Inr (final_price, price_min, price_max, spread_pct, confidence)))))))
           (\<lambda>(final_price, price_min, price_max, spread_pct, confidence).
              (let warnings' = generate_warnings spread_pct
                                 (length valid_sources) (length source_prices) in
               Inr \<lparr>token_address = token_address',
                    chain_id = chain_id',
                    price_usd = py_round final_price 6,
                    confidence = py_round confidence 3,
                    sources_count = length valid_sources,
                    price_range = \<lparr>range_min = py_round price_min 6,
                                   range_max = py_round price_max 6,
                                   spread_percent = py_round spread_pct 2\<rparr>,
                    sources = valid_sources,
                    warnings = warnings',
                    timestamp = ''''\<rparr>)))))"

subsection \<open>Names for what the claims speak about\<close>

text \<open>The values of the local variables \<^verbatim>\<open>prices\<close> and \<^verbatim>\<open>confidences\<close> of
  \<^verbatim>\<open>aggregate_prices\<close>, as functions of its argument.\<close>

definition valid_prices :: "quote list \<Rightarrow> rat list" where
  "valid_prices source_prices = map (\<lambda>s. the (q_price_usd s)) (filter is_valid source_prices)"

definition valid_confidences :: "quote list \<Rightarrow> rat list" where
  "valid_confidences source_prices = map get_confidence (filter is_valid source_prices)"

text \<open>The value the multi-source branch gives to \<^verbatim>\<open>spread_pct\<close>, from the consensus
  price and the prices.\<close>

definition spread_pct_of :: "rat \<Rightarrow> rat list \<Rightarrow> rat" where
  "spread_pct_of final_price prices =
     (if 0 < final_price then (Max (set prices) - Min (set prices)) / final_price * 100 else 0)"

text \<open>The confidence as the specification words it: the base (the median of the source
  confidences) plus the bonus \<open>min (0.1 \<times> valid_count) 0.2\<close> minus the spread penalty,
  \<open>min ((spread_pct - 5.0) / 100) 0.3\<close> when \<open>spread_pct\<close> exceeds \<open>5.0\<close> and \<open>0\<close>
  otherwise, clamped to \<open>[0.1, 1.0]\<close>.\<close>

definition spec_confidence :: "rat \<Rightarrow> nat \<Rightarrow> rat \<Rightarrow> rat" where
  "spec_confidence base valid_count spread_pct =
     max (1 / 10) (min 1 (base + min (1 / 10 * of_nat valid_count) (1 / 5)
       - (if 5 < spread_pct then min ((spread_pct - 5) / 100) (3 / 10) else 0)))"

text \<open>The two shapes of dictionary the fetchers return: a price with a confidence, and a
  failure with its error message and no price.\<close>

definition ok_quote :: "string \<Rightarrow> rat \<Rightarrow> rat \<Rightarrow> quote" where
  "ok_quote name p c =
     \<lparr>q_source = name, q_price_usd = Some p, q_confidence = Some c, q_error = None,
      q_extra = []\<rparr>"

definition failed_quote :: "string \<Rightarrow> string \<Rightarrow> quote" where
  "failed_quote name msg =
     \<lparr>q_source = name, q_price_usd = None, q_confidence = None, q_error = Some msg,
      q_extra = []\<rparr>"






section \<open>Lemmas\<close>

lemma py_bind_Inr [simp]: "py_bind (Inr v) f = f v"
  by (simp add: py_bind_def)

lemma py_bind_Inl [simp]: "py_bind (Inl e) f = Inl e"
  by (simp add: py_bind_def)

lemma get_price_valid: "is_valid s \<Longrightarrow> get_price s = Inr (the (q_price_usd s))"
  by (simp add: is_valid_def get_price_def split: option.splits)

lemma py_collect_get_price:
  "\<forall>s \<in> set xs. is_valid s \<Longrightarrow> py_collect get_price xs = Inr (map (\<lambda>s. the (q_price_usd s)) xs)"
  by (induction xs) (simp_all add: get_price_valid)

lemma py_collect_valid:
  "py_collect get_price (filter is_valid qs) = Inr (valid_prices qs)"
  by (simp add: py_collect_get_price valid_prices_def)


lemma length_valid_prices [simp]: "length (valid_prices qs) = length (filter is_valid qs)"
  by (simp add: valid_prices_def)

lemma length_valid_confidences [simp]: "length (valid_confidences qs) = length (filter is_valid qs)"
  by (simp add: valid_confidences_def)

lemma fold_min_Min: "fold min ys (x::rat) = Min (set (x # ys))"
  by (rule Min.set_eq_fold [symmetric])

lemma fold_max_Max: "fold max ys (x::rat) = Max (set (x # ys))"
  by (rule Max.set_eq_fold [symmetric])

lemma py_min_Min: "xs \<noteq> [] \<Longrightarrow> py_min xs = Inr (Min (set xs))"
  by (cases xs) (simp_all add: py_min_def fold_min_Min del: set_simps)

lemma py_max_Max: "xs \<noteq> [] \<Longrightarrow> py_max xs = Inr (Max (set xs))"
  by (cases xs) (simp_all add: py_max_def fold_max_Max del: set_simps)

lemma sort_eq_Nil: "sort xs = [] \<longleftrightarrow> xs = []"
  by (metis length_0_conv length_sort)

lemma py_median_eq:
  "xs \<noteq> [] \<Longrightarrow>
   py_median xs =
     Inr (if length xs mod 2 = 1 then sort xs ! (length xs div 2)
          else (sort xs ! (length xs div 2 - 1) + sort xs ! (length xs div 2)) / 2)"
  by (simp add: py_median_def Let_def sort_eq_Nil)


lemma py_median_total: "xs \<noteq> [] \<Longrightarrow> \<exists>m. py_median xs = Inr m"
  by (simp add: py_median_eq)



lemma py_median_mset:
  "mset xs = mset ys \<Longrightarrow> py_median xs = py_median ys"
proof -
  assume h: "mset xs = mset ys"
  have "sort xs = sort ys"
    by (rule properties_for_sort) (simp_all add: h)
  then show ?thesis by (simp add: py_median_def)
qed




lemma round_half_even_of_int [simp]: "round_half_even (of_int k) = k"
  by (simp add: round_half_even_def Let_def)









lemma py_round_zero [simp]: "py_round 0 n = 0"
  using round_half_even_of_int [of 0] by (simp add: py_round_def)






lemma calculate_weighted_price_cases:
  "prices \<noteq> [] \<Longrightarrow>
   calculate_weighted_price prices confs =
     (if sum_list confs = 0 then py_median prices
      else Inr (sum_list (map (\<lambda>(p, c). p * c) (zip prices confs)) / sum_list confs))"
  by (simp add: calculate_weighted_price_def Let_def py_div_def)

lemma calculate_weighted_price_total:
  "prices \<noteq> [] \<Longrightarrow> \<exists>fp. calculate_weighted_price prices confs = Inr fp"
  using py_median_total [of prices] by (auto simp: calculate_weighted_price_cases)

lemma calculate_confidence_eq:
  "py_median confs = Inr m \<Longrightarrow>
   calculate_confidence prices confs sp = Inr (spec_confidence m (length prices) sp)"
  by (simp add: calculate_confidence_def spec_confidence_def MAX_SPREAD_PCT_def Let_def)

lemma aggregate_prices_none:
  "filter is_valid qs = [] \<Longrightarrow>
   aggregate_prices t c qs =
     Inr (create_error_result t c ''No valid price sources available'' qs)"
  by (simp add: aggregate_prices_def)

lemma aggregate_prices_single:
  assumes "filter is_valid qs = [s]"
  shows "aggregate_prices t c qs =
     Inr \<lparr>token_address = t, chain_id = c,
          price_usd = py_round (the (q_price_usd s)) 6,
          confidence = py_round (get_confidence s * (8 / 10)) 3,
          sources_count = 1,
          price_range = \<lparr>range_min = py_round (the (q_price_usd s)) 6,
                         range_max = py_round (the (q_price_usd s)) 6,
                         spread_percent = 0\<rparr>,
          sources = [s],
          warnings = generate_warnings 0 1 (length qs),
          timestamp = ''''\<rparr>"
proof -
  have "is_valid s" using assms by (metis filter_eq_ConsD)
  then have "py_collect get_price [s] = Inr [the (q_price_usd s)]"
    by (simp add: get_price_valid)
  then show ?thesis
    using assms by (simp add: aggregate_prices_def py_index_def)
qed

lemma aggregate_prices_multi:
  assumes n: "2 \<le> length (filter is_valid qs)"
    and fp: "calculate_weighted_price (valid_prices qs) (valid_confidences qs) = Inr fp"
    and m: "py_median (valid_confidences qs) = Inr m"
  shows "aggregate_prices t c qs =
     Inr \<lparr>token_address = t, chain_id = c,
          price_usd = py_round fp 6,
          confidence = py_round (spec_confidence m (length (filter is_valid qs))
                         (spread_pct_of fp (valid_prices qs))) 3,
          sources_count = length (filter is_valid qs),
          price_range = \<lparr>range_min = py_round (Min (set (valid_prices qs))) 6,
                         range_max = py_round (Max (set (valid_prices qs))) 6,
                         spread_percent = py_round (spread_pct_of fp (valid_prices qs)) 2\<rparr>,
          sources = filter is_valid qs,
          warnings = generate_warnings (spread_pct_of fp (valid_prices qs))
                       (length (filter is_valid qs)) (length qs),
          timestamp = ''''\<rparr>"
proof -
  have ne: "filter is_valid qs \<noteq> []" using n by auto
  have pne: "valid_prices qs \<noteq> []" using ne by (simp add: valid_prices_def)
  have l1: "length (valid_prices qs) \<noteq> 1" using n by simp
  have conf: "\<And>sp. calculate_confidence (valid_prices qs) (valid_confidences qs) sp =
      Inr (spec_confidence m (length (filter is_valid qs)) sp)"
    using calculate_confidence_eq [OF m, of "valid_prices qs"] by simp
  show ?thesis
    using ne l1 fp
    by (simp add: aggregate_prices_def py_collect_valid valid_confidences_def [symmetric]
          py_min_Min [OF pne] py_max_Max [OF pne] py_div_def conf spread_pct_of_def Let_def
          del: One_nat_def)
qed



lemma weighted_sum_map:
  "sum_list (map (\<lambda>(p, c). p * c) (zip (map f xs) (map g xs))) =
   (\<Sum>s\<leftarrow>xs. f s * g s)"
  by (induction xs) simp_all

lemma weighted_sum_valid:
  "sum_list (map (\<lambda>(p, c). p * c) (zip (valid_prices qs) (valid_confidences qs))) =
   (\<Sum>s\<leftarrow>filter is_valid qs. the (q_price_usd s) * get_confidence s)"
  by (simp add: valid_prices_def valid_confidences_def weighted_sum_map)


lemma multi_obtain:
  assumes "2 \<le> length (filter is_valid qs)"
  obtains fp m where
    "calculate_weighted_price (valid_prices qs) (valid_confidences qs) = Inr fp"
    "py_median (valid_confidences qs) = Inr m"
proof -
  have "valid_prices qs \<noteq> []" and "valid_confidences qs \<noteq> []"
    using assms by (auto simp: valid_prices_def valid_confidences_def)
  then show ?thesis
    using calculate_weighted_price_total py_median_total that by metis
qed






lemma calculate_weighted_price_single:
  "calculate_weighted_price [p] [c] = Inr p"
  by (simp add: calculate_weighted_price_def py_median_def py_div_def)

lemma spread_pct_of_single: "spread_pct_of p [p] = 0"
  by (simp add: spread_pct_of_def)

lemma aggregate_prices_valid:
  assumes ne: "filter is_valid qs \<noteq> []"
  shows "\<exists>r fp. aggregate_prices t c qs = Inr r \<and>
      calculate_weighted_price (valid_prices qs) (valid_confidences qs) = Inr fp \<and>
      token_address r = t \<and> chain_id r = c \<and> timestamp r = '''' \<and>
      price_usd r = py_round fp 6 \<and>
      sources_count r = length (filter is_valid qs) \<and>
      price_range r =
        \<lparr>range_min = py_round (Min (set (valid_prices qs))) 6,
         range_max = py_round (Max (set (valid_prices qs))) 6,
         spread_percent = py_round (spread_pct_of fp (valid_prices qs)) 2\<rparr> \<and>
      sources r = filter is_valid qs \<and>
      warnings r = generate_warnings (spread_pct_of fp (valid_prices qs))
                     (length (filter is_valid qs)) (length qs)"
proof (cases "length (filter is_valid qs) = 1")
  case True
  then obtain s where s: "filter is_valid qs = [s]"
    by (auto simp: length_Suc_conv)
  have vp: "valid_prices qs = [the (q_price_usd s)]"
    and vc: "valid_confidences qs = [get_confidence s]"
    using s by (simp_all add: valid_prices_def valid_confidences_def)
  show ?thesis
    by (simp add: aggregate_prices_single [OF s] vp vc s calculate_weighted_price_single
          spread_pct_of_single)
next
  case False
  moreover have "length (filter is_valid qs) \<noteq> 0" using ne by simp
  ultimately have n: "2 \<le> length (filter is_valid qs)" by arith
  from n obtain fp m where
    fp: "calculate_weighted_price (valid_prices qs) (valid_confidences qs) = Inr fp"
    and m: "py_median (valid_confidences qs) = Inr m"
    by (rule multi_obtain)
  show ?thesis
    by (simp add: aggregate_prices_multi [OF n fp m] fp)
qed

text \<open>
  The order of the input, in exact arithmetic. A sum of rationals, a sorted list, a
  minimum and a maximum do not depend on the order of the list they are taken of, so two
  inputs with the same quotes in a different order give the same result up to the order
  of the list of sources. This is a fact about the formulas: the program adds doubles,
  and the sum of three or more doubles depends on the order in which they are added.
\<close>

lemma sum_list_map_mset:
  fixes h :: "'a \<Rightarrow> rat"
  assumes "mset xs = mset ys"
  shows "sum_list (map h xs) = sum_list (map h ys)"
proof -
  have "sum_list (map h xs) = sum_mset (image_mset h (mset xs))"
    by (metis mset_map sum_mset_sum_list)
  also have "\<dots> = sum_mset (image_mset h (mset ys))" by (simp add: assms)
  also have "\<dots> = sum_list (map h ys)" by (metis mset_map sum_mset_sum_list)
  finally show ?thesis .
qed

lemma valid_mset:
  assumes "mset qs = mset qs'"
  shows "mset (filter is_valid qs) = mset (filter is_valid qs')"
    and "mset (valid_prices qs) = mset (valid_prices qs')"
    and "mset (valid_confidences qs) = mset (valid_confidences qs')"
  using assms by (simp_all add: valid_prices_def valid_confidences_def)

lemma calculate_weighted_price_mset:
  assumes "mset qs = mset qs'"
  shows "calculate_weighted_price (valid_prices qs) (valid_confidences qs) =
         calculate_weighted_price (valid_prices qs') (valid_confidences qs')"
proof -
  note v = valid_mset [OF assms]
  have e: "valid_prices qs = [] \<longleftrightarrow> valid_prices qs' = []"
    using v(2) by (metis mset_zero_iff)
  have s1: "sum_list (valid_confidences qs) = sum_list (valid_confidences qs')"
    unfolding valid_confidences_def by (rule sum_list_map_mset) (rule v(1))
  have s2: "sum_list (map (\<lambda>(p, c). p * c) (zip (valid_prices qs) (valid_confidences qs))) =
            sum_list (map (\<lambda>(p, c). p * c) (zip (valid_prices qs') (valid_confidences qs')))"
    unfolding weighted_sum_valid by (rule sum_list_map_mset) (rule v(1))
  have m: "py_median (valid_prices qs) = py_median (valid_prices qs')"
    by (rule py_median_mset) (rule v(2))
  show ?thesis
    unfolding calculate_weighted_price_def Let_def s1 s2 m using e by simp
qed

lemma aggregate_prices_permutation_exact:
  assumes "mset source_prices = mset source_prices'"
  shows "\<exists>r r'. aggregate_prices t c source_prices = Inr r \<and>
                aggregate_prices t c source_prices' = Inr r' \<and>
                r'\<lparr>sources := sources r\<rparr> = r \<and>
                mset (sources r') = mset (sources r)"
proof -
  note v = valid_mset [OF assms]
  have len: "length (filter is_valid source_prices) = length (filter is_valid source_prices')"
    using v(1) by (metis size_mset)
  have len': "length source_prices = length source_prices'"
    using assms by (metis size_mset)
  have sets: "set (valid_prices source_prices) = set (valid_prices source_prices')"
    using v(2) by (metis set_mset_mset)
  have cw: "calculate_weighted_price (valid_prices source_prices)
              (valid_confidences source_prices) =
            calculate_weighted_price (valid_prices source_prices')
              (valid_confidences source_prices')"
    by (rule calculate_weighted_price_mset) (rule assms)
  have md: "py_median (valid_confidences source_prices) =
            py_median (valid_confidences source_prices')"
    by (rule py_median_mset) (rule v(3))
  consider (none) "filter is_valid source_prices = []"
    | (one) "length (filter is_valid source_prices) = 1"
    | (many) "2 \<le> length (filter is_valid source_prices)"
    by (cases "filter is_valid source_prices") (auto simp: Suc_le_eq)
  then show ?thesis
  proof cases
    case none
    then have "filter is_valid source_prices' = []" using len by simp
    with none show ?thesis
      using assms by (simp add: aggregate_prices_none create_error_result_def)
  next
    case one
    then obtain s where s: "filter is_valid source_prices = [s]"
      by (auto simp: length_Suc_conv)
    then have "mset (filter is_valid source_prices') = {#s#}" using v(1) by simp
    then have s': "filter is_valid source_prices' = [s]" by (metis mset_single_iff_right)
    show ?thesis
      by (simp add: aggregate_prices_single [OF s] aggregate_prices_single [OF s'] len')
  next
    case many
    then have many': "2 \<le> length (filter is_valid source_prices')" using len by simp
    from many obtain fp m where
      fp: "calculate_weighted_price (valid_prices source_prices)
             (valid_confidences source_prices) = Inr fp"
      and m: "py_median (valid_confidences source_prices) = Inr m"
      by (rule multi_obtain)
    show ?thesis
      by (simp add: aggregate_prices_multi [OF many fp m]
            aggregate_prices_multi [OF many' fp [unfolded cw] m [unfolded md]]
            len len' sets spread_pct_of_def assms)
  qed
qed

section \<open>The claims\<close>




text \<open>
  C2. When no quote of the input is valid (every price is absent, or less than or equal to
  zero), \<^verbatim>\<open>aggregate_prices\<close> returns the error result: price 0.0, confidence 0.0,
  sources_count 0, the price range \<open>{min: 0, max: 0, spread_percent: 0}\<close>, the whole input
  list as sources, and exactly one warning, the no-entry sign followed by
  "No valid price sources available".
\<close>

theorem C2_no_valid_quote:
  assumes "\<forall>s \<in> set source_prices.
             q_price_usd s = None \<or> (\<exists>p. q_price_usd s = Some p \<and> p \<le> 0)"
  shows "aggregate_prices t c source_prices =
     Inr \<lparr>token_address = t, chain_id = c, price_usd = 0, confidence = 0,
          sources_count = 0,
          price_range = \<lparr>range_min = 0, range_max = 0, spread_percent = 0\<rparr>,
          sources = source_prices,
          warnings = [no_entry_sign @ '' No valid price sources available''],
          timestamp = ''''\<rparr>"
proof -
  have "\<forall>s \<in> set source_prices. \<not> is_valid s"
    using assms by (auto simp: is_valid_def)
  then have "filter is_valid source_prices = []" by (simp add: filter_empty_conv)
  then show ?thesis
    by (simp add: aggregate_prices_none create_error_result_def)
qed

theorem C2_no_valid_quote_witness:
  "aggregate_prices ''0xabc'' 1
     [failed_quote ''dex'' ''Pair address required for DEX pricing'',
      ok_quote ''coingecko'' 0 (95 / 100), ok_quote ''other'' (- 1) (9 / 10)] =
     Inr \<lparr>token_address = ''0xabc'', chain_id = 1, price_usd = 0, confidence = 0,
          sources_count = 0,
          price_range = \<lparr>range_min = 0, range_max = 0, spread_percent = 0\<rparr>,
          sources = [failed_quote ''dex'' ''Pair address required for DEX pricing'',
                     ok_quote ''coingecko'' 0 (95 / 100), ok_quote ''other'' (- 1) (9 / 10)],
          warnings = [no_entry_sign @ '' No valid price sources available''],
          timestamp = ''''\<rparr>"
proof -
  have h: "\<forall>s \<in> set [failed_quote ''dex'' ''Pair address required for DEX pricing'',
               ok_quote ''coingecko'' 0 (95 / 100), ok_quote ''other'' (- 1) (9 / 10)].
      q_price_usd s = None \<or> (\<exists>p. q_price_usd s = Some p \<and> p \<le> 0)"
    by (simp add: failed_quote_def ok_quote_def)
  from C2_no_valid_quote [OF h] show ?thesis .
qed













text \<open>
  C9. \<^verbatim>\<open>aggregate_prices\<close> returns a result for every token address, chain id and list of
  quotes, the empty list and quotes without price or confidence or with a non-positive
  price included: no operation in it raises.
\<close>

theorem C9_never_raises:
  "\<exists>r. aggregate_prices t c source_prices = Inr r"
proof (cases "filter is_valid source_prices = []")
  case True
  then show ?thesis by (simp add: aggregate_prices_none)
next
  case False
  then show ?thesis using aggregate_prices_valid by blast
qed



end
